theory Spec2Isabelle
  imports Main
begin

section \<open>Request values\<close>

text \<open>
  The values a client can put into a request body or a socket event, as far as the
  handlers of \<^verbatim>\<open>src/backend/server.js\<close> look at them: \<^verbatim>\<open>null\<close>, strings, arrays
  and objects. (Numbers and booleans are not part of this model.) A field that is
  absent from an object reads as \<^verbatim>\<open>undefined\<close>, which is \<open>None\<close> below. An object is
  a list of entries; with a repeated key the last entry counts, as after
  \<^verbatim>\<open>JSON.parse\<close>.
\<close>

datatype json = JNull | JStr string | JArr "json list" | JObj "(string \<times> json) list"

type_synonym body = "string \<rightharpoonup> json"

definition field :: "string \<Rightarrow> (string \<times> json) list \<Rightarrow> json option" where
  "field k kvs = map_of (rev kvs) k"

fun joinComma :: "string list \<Rightarrow> string" where
  "joinComma [] = []"
| "joinComma [s] = s"
| "joinComma (s # t # ts) = s @ '','' @ joinComma (t # ts)"

text \<open>
  JavaScript's \<^verbatim>\<open>String(v)\<close>, which is what a template literal and \<^verbatim>\<open>v.toString()\<close>
  compute: an array is the comma-joined rendering of its elements, where \<^verbatim>\<open>null\<close>
  elements render as the empty string. An object renders through
  \<^verbatim>\<open>Object.prototype.toString\<close>, unless it has a \<^verbatim>\<open>toString\<close> entry of its own: a
  request value is never a function, so the conversion then raises a \<^verbatim>\<open>TypeError\<close>,
  which is \<open>None\<close>.
\<close>

fun jsString :: "json \<Rightarrow> string option"
  and jsStrings :: "json list \<Rightarrow> string list option" where
  "jsString JNull = Some ''null''"
| "jsString (JStr s) = Some s"
| "jsString (JArr xs) = map_option joinComma (jsStrings xs)"
| "jsString (JObj kvs) = (if field ''toString'' kvs = None then Some ''[object Object]'' else None)"
| "jsStrings [] = Some []"
| "jsStrings (x # xs) =
     (case (if x = JNull then Some [] else jsString x) of
        None \<Rightarrow> None
      | Some s \<Rightarrow> map_option ((#) s) (jsStrings xs))"

definition template :: "json option \<Rightarrow> string option" where
  \<comment> \<open>the interpolation \<^verbatim>\<open>${v}\<close> of a value that may be \<^verbatim>\<open>undefined\<close>\<close>
  "template v = (case v of None \<Rightarrow> Some ''undefined'' | Some x \<Rightarrow> jsString x)"

section \<open>Store identifiers and schema casts\<close>

text \<open>
  A store identifier (\<^verbatim>\<open>mongoose.Schema.Types.ObjectId\<close>) is a 12-byte number, written
  as 24 hexadecimal digits in either case. A string of any other form does not cast to
  an identifier.
\<close>

datatype oid = ObjectId nat

definition hexDigit :: "char \<Rightarrow> nat option" where
  "hexDigit c =
     (let n = (of_char c :: nat) in
      if 48 \<le> n \<and> n \<le> 57 then Some (n - 48)
      else if 97 \<le> n \<and> n \<le> 102 then Some (n - 87)
      else if 65 \<le> n \<and> n \<le> 70 then Some (n - 55)
      else None)"

fun hexValue :: "nat \<Rightarrow> string \<Rightarrow> nat option" where
  "hexValue acc [] = Some acc"
| "hexValue acc (c # cs) =
     (case hexDigit c of None \<Rightarrow> None | Some d \<Rightarrow> hexValue (16 * acc + d) cs)"

definition parseObjectId :: "string \<Rightarrow> oid option" where
  "parseObjectId s = (if length s = 24 then map_option ObjectId (hexValue 0 s) else None)"

text \<open>
  The result of casting a supplied value to the type of a schema path: the cast fails,
  or gives \<^verbatim>\<open>null\<close>, or gives a value of the path's type.
\<close>

datatype 'a cast = CastError | Null | Val 'a

definition castString :: "json \<Rightarrow> string cast" where
  \<comment> \<open>a \<^verbatim>\<open>String\<close> path: strings as they are; an object stands for its non-empty string
      \<^verbatim>\<open>_id\<close>; arrays and other objects are refused\<close>
  "castString v =
     (case v of
        JNull \<Rightarrow> Null
      | JStr s \<Rightarrow> Val s
      | JArr xs \<Rightarrow> CastError
      | JObj kvs \<Rightarrow>
          (case field ''_id'' kvs of
             Some (JStr s) \<Rightarrow> if s = [] then CastError else Val s
           | _ \<Rightarrow> CastError))"

definition idOfString :: "string option \<Rightarrow> oid cast" where
  \<comment> \<open>a rendering that raised, or that is not an identifier, is a failed cast\<close>
  "idOfString r =
     (case r of
        None \<Rightarrow> CastError
      | Some s \<Rightarrow> (case parseObjectId s of None \<Rightarrow> CastError | Some i \<Rightarrow> Val i))"

definition castObjectId :: "json \<Rightarrow> oid cast" where
  \<comment> \<open>an \<^verbatim>\<open>ObjectId\<close> path: the string rendering of the value (of its \<^verbatim>\<open>_id\<close>, for an
      object) has to be an identifier\<close>
  "castObjectId v =
     (case v of
        JNull \<Rightarrow> Null
      | JObj kvs \<Rightarrow> (case field ''_id'' kvs of None \<Rightarrow> CastError | Some w \<Rightarrow> idOfString (jsString w))
      | _ \<Rightarrow> idOfString (jsString v))"

fun castObjectIds :: "json list \<Rightarrow> oid list cast" where
  \<comment> \<open>the elements of an array of \<^verbatim>\<open>ObjectId\<close>: one failed cast fails the array; the
      result lists the identifiers, a \<^verbatim>\<open>null\<close> element carries none\<close>
  "castObjectIds [] = Val []"
| "castObjectIds (x # xs) =
     (case castObjectId x of
        CastError \<Rightarrow> CastError
      | Null \<Rightarrow> castObjectIds xs
      | Val i \<Rightarrow> (case castObjectIds xs of Val is \<Rightarrow> Val (i # is) | _ \<Rightarrow> CastError))"

definition castCollaborators :: "json \<Rightarrow> oid list cast" where
  \<comment> \<open>the path \<^verbatim>\<open>collaborators\<close>: an array is cast element by element, a single value
      as the array of that value\<close>
  "castCollaborators v =
     (case v of
        JNull \<Rightarrow> Val []
      | JArr xs \<Rightarrow> castObjectIds xs
      | _ \<Rightarrow> castObjectIds [v])"

definition castField :: "(json \<Rightarrow> 'a cast) \<Rightarrow> json option \<Rightarrow> 'a cast" where
  \<comment> \<open>a field that was not supplied stays unset\<close>
  "castField c v = (case v of None \<Rightarrow> Null | Some x \<Rightarrow> c x)"

section \<open>Data model\<close>

text \<open>\<^verbatim>\<open>userSchema\<close> (lines 39-45) and \<^verbatim>\<open>projectSchema\<close> (lines 50-59). Times are
  milliseconds. A description that is \<^verbatim>\<open>null\<close> or unset is \<open>None\<close>. The field
  \<open>collaborators\<close> lists the identifiers in the stored array, which is what the
  filter \<^verbatim>\<open>{ collaborators: userId }\<close> matches against.\<close>

record user =
  u_id :: oid
  username :: string
  email :: string
  password :: string
  role :: string
  u_createdAt :: nat

record project =
  p_id :: oid
  name :: string
  description :: "string option"
  technology :: string
  status :: string
  owner :: oid
  collaborators :: "oid list"
  createdAt :: nat
  updatedAt :: nat

record store =
  users :: "user list"
  projects :: "project list"

definition statusEnum :: "string list" where
  "statusEnum = [''planning'', ''development'', ''testing'', ''deployed'']"

text \<open>
  A document while a handler holds it: every path carries the outcome of the cast of
  what was last assigned to it. \<open>validate\<close> is the check that \<^verbatim>\<open>save()\<close> runs before
  it writes: no path with a failed cast, \<^verbatim>\<open>name\<close>, \<^verbatim>\<open>technology\<close> and \<^verbatim>\<open>owner\<close>
  required (for a string: present and not empty), \<^verbatim>\<open>status\<close> one of the enumerated
  values. The check is written for the whole document; \<^verbatim>\<open>save()\<close> skips the paths
  that were not assigned, on which a document read from the store passes anyway
  (\<open>wellFormed\<close> holds of every stored project, as shown below).
\<close>

record document =
  d_id :: oid
  d_name :: "string cast"
  d_description :: "string cast"
  d_technology :: "string cast"
  d_status :: "string cast"
  d_owner :: "oid cast"
  d_collaborators :: "oid list cast"
  d_createdAt :: nat
  d_updatedAt :: nat

definition hydrate :: "project \<Rightarrow> document" where
  "hydrate p =
     \<lparr>d_id = p_id p, d_name = Val (name p),
      d_description = (case description p of None \<Rightarrow> Null | Some s \<Rightarrow> Val s),
      d_technology = Val (technology p), d_status = Val (status p), d_owner = Val (owner p),
      d_collaborators = Val (collaborators p), d_createdAt = createdAt p, d_updatedAt = updatedAt p\<rparr>"

definition validate :: "document \<Rightarrow> project option" where
  "validate d =
     (case (d_name d, d_technology d, d_status d, d_owner d, d_collaborators d) of
        (Val n, Val t, Val s, Val ow, Val cs) \<Rightarrow>
          if n = [] \<or> t = [] \<or> s \<notin> set statusEnum \<or> d_description d = CastError then None
          else Some \<lparr>p_id = d_id d, name = n,
                     description = (case d_description d of Val x \<Rightarrow> Some x | _ \<Rightarrow> None),
                     technology = t, status = s, owner = ow,
                     collaborators = cs,
                     createdAt = d_createdAt d, updatedAt = d_updatedAt d\<rparr>
      | _ \<Rightarrow> None)"

definition wellFormed :: "project \<Rightarrow> bool" where
  \<comment> \<open>the constraints of \<^verbatim>\<open>projectSchema\<close> on a stored project\<close>
  "wellFormed p \<longleftrightarrow> name p \<noteq> [] \<and> technology p \<noteq> [] \<and> status p \<in> set statusEnum"

section \<open>Responses\<close>

record userView =
  v_id :: oid
  v_username :: string
  v_email :: string
  v_role :: string

record token =
  t_userId :: oid
  t_username :: string
  t_expires :: nat

datatype payload =
    ErrorBody string
  | MessageBody string
  | ProjectBody project
  | ProjectsBody "project list"
  | AuthBody string token userView

datatype response = Response (code: nat) (payload: payload)

definition internalError :: response where
  "internalError = Response 500 (ErrorBody ''Internal server error'')"

section \<open>Credential store: register and login\<close>

text \<open>
  The password hash and its comparison (\<^verbatim>\<open>bcrypt.hash\<close>, \<^verbatim>\<open>bcrypt.compare\<close>) are
  parameters of the handlers. A signed token is its payload and expiry. The request
  fields are strings here. \<open>newId\<close> is the identifier the driver draws for a new
  document and \<open>now\<close> the clock; the store refuses a second document with an identifier
  it already holds.
\<close>

definition publicView :: "user \<Rightarrow> userView" where
  "publicView u = \<lparr>v_id = u_id u, v_username = username u, v_email = email u, v_role = role u\<rparr>"

definition sign :: "user \<Rightarrow> nat \<Rightarrow> token" where
  "sign u now = \<lparr>t_userId = u_id u, t_username = username u, t_expires = now + 24 * 60 * 60 * 1000\<rparr>"

definition register :: "(string \<Rightarrow> string) \<Rightarrow> oid \<Rightarrow> nat \<Rightarrow> string \<Rightarrow> string \<Rightarrow> string \<Rightarrow> store
    \<Rightarrow> response \<times> store" where
  "register hash newId now username' email' password' S =
     (case find (\<lambda>u. email u = email' \<or> username u = username') (users S) of
        Some existingUser \<Rightarrow> (Response 400 (ErrorBody ''User already exists''), S)
      | None \<Rightarrow>
          (let hashedPassword = hash password';
               u = \<lparr>u_id = newId, username = username', email = email',
                    password = hashedPassword, role = ''user'', u_createdAt = now\<rparr>
           in if username' = [] \<or> email' = [] \<or> hashedPassword = []
                 \<or> newId \<in> u_id ` set (users S)
              then (internalError, S)
              else (Response 201 (AuthBody ''User created successfully'' (sign u now) (publicView u)),
                    S\<lparr>users := users S @ [u]\<rparr>)))"

definition login :: "(string \<Rightarrow> string \<Rightarrow> bool) \<Rightarrow> nat \<Rightarrow> string \<Rightarrow> string \<Rightarrow> store \<Rightarrow> response" where
  "login compare now email' password' S =
     (case find (\<lambda>u. email u = email') (users S) of
        None \<Rightarrow> Response 401 (ErrorBody ''Invalid credentials'')
      | Some u \<Rightarrow>
          if \<not> compare password' (password u)
          then Response 401 (ErrorBody ''Invalid credentials'')
          else Response 200 (AuthBody ''Login successful'' (sign u now) (publicView u)))"

section \<open>Project routes\<close>

text \<open>
  The project handlers run behind \<^verbatim>\<open>authenticateToken\<close>; \<open>userId\<close> is
  \<^verbatim>\<open>req.user.userId\<close>, the identifier that \<open>sign\<close> put into the verified token. The
  response carries the stored document; how \<^verbatim>\<open>populate\<close> renders its references is
  not modelled.
\<close>

definition visible :: "oid \<Rightarrow> project \<Rightarrow> bool" where
  \<comment> \<open>the filter \<^verbatim>\<open>$or: [{ owner: userId }, { collaborators: userId }]\<close>\<close>
  "visible userId p \<longleftrightarrow> owner p = userId \<or> userId \<in> set (collaborators p)"

definition getProjects :: "oid \<Rightarrow> store \<Rightarrow> response" where
  "getProjects userId S = Response 200 (ProjectsBody (filter (visible userId) (projects S)))"

definition newProject :: "oid \<Rightarrow> nat \<Rightarrow> json option \<Rightarrow> json option \<Rightarrow> json option \<Rightarrow> oid
    \<Rightarrow> document" where
  \<comment> \<open>\<^verbatim>\<open>new Project({ name, description, technology, owner })\<close> with the schema's defaults\<close>
  "newProject newId now name' description' technology' owner' =
     \<lparr>d_id = newId, d_name = castField castString name',
      d_description = castField castString description',
      d_technology = castField castString technology',
      d_status = Val ''planning'', d_owner = Val owner', d_collaborators = Val [],
      d_createdAt = now, d_updatedAt = now\<rparr>"

definition saveNew :: "document \<Rightarrow> store \<Rightarrow> (project \<times> store) option" where
  "saveNew d S =
     (case validate d of
        None \<Rightarrow> None
      | Some p \<Rightarrow>
          if p_id p \<in> p_id ` set (projects S) then None
          else Some (p, S\<lparr>projects := projects S @ [p]\<rparr>))"

definition createProject :: "oid \<Rightarrow> nat \<Rightarrow> oid \<Rightarrow> body \<Rightarrow> store \<Rightarrow> response \<times> store" where
  "createProject newId now userId b S =
     (let name' = b ''name''; description' = b ''description''; technology' = b ''technology'';
          project = newProject newId now name' description' technology' userId
      in case saveNew project S of
           None \<Rightarrow> (internalError, S)
         | Some (p, S') \<Rightarrow> (Response 201 (ProjectBody p), S'))"

text \<open>
  \<^verbatim>\<open>Object.assign(project, updates)\<close> assigns every entry of the body to the document,
  and each assignment casts the value to the type of its path. A patch holds the
  entries of the body for the paths \<^verbatim>\<open>name\<close>, \<^verbatim>\<open>description\<close>, \<^verbatim>\<open>technology\<close>,
  \<^verbatim>\<open>status\<close>, \<^verbatim>\<open>owner\<close> and \<^verbatim>\<open>collaborators\<close>. Entries for the two dates (the
  handler sets \<^verbatim>\<open>updatedAt\<close> itself after the assignment) and entries whose key is
  not a path declared in \<^verbatim>\<open>projectSchema\<close> are not part of a patch.
\<close>

datatype path = Name | Description | Technology | Status | Owner | Collaborators

type_synonym patch = "path \<rightharpoonup> json"

definition assign :: "document \<Rightarrow> patch \<Rightarrow> document" where
  "assign d updates =
     d\<lparr>d_name := (case updates Name of None \<Rightarrow> d_name d | Some v \<Rightarrow> castString v),
       d_description := (case updates Description of None \<Rightarrow> d_description d | Some v \<Rightarrow> castString v),
       d_technology := (case updates Technology of None \<Rightarrow> d_technology d | Some v \<Rightarrow> castString v),
       d_status := (case updates Status of None \<Rightarrow> d_status d | Some v \<Rightarrow> castString v),
       d_owner := (case updates Owner of None \<Rightarrow> d_owner d | Some v \<Rightarrow> castObjectId v),
       d_collaborators :=
         (case updates Collaborators of None \<Rightarrow> d_collaborators d | Some v \<Rightarrow> castCollaborators v)\<rparr>"

fun replaceById :: "project \<Rightarrow> project list \<Rightarrow> project list" where
  "replaceById p [] = []"
| "replaceById p (q # qs) = (if p_id q = p_id p then p # qs else q # replaceById p qs)"

fun removeById :: "oid \<Rightarrow> project list \<Rightarrow> project list" where
  "removeById i [] = []"
| "removeById i (q # qs) = (if p_id q = i then qs else q # removeById i qs)"

definition saveExisting :: "document \<Rightarrow> store \<Rightarrow> (project \<times> store) option" where
  "saveExisting d S =
     (case validate d of
        None \<Rightarrow> None
      | Some p \<Rightarrow> Some (p, S\<lparr>projects := replaceById p (projects S)\<rparr>))"

definition updateProject :: "nat \<Rightarrow> oid \<Rightarrow> string \<Rightarrow> patch \<Rightarrow> store \<Rightarrow> response \<times> store" where
  "updateProject now userId id' updates S =
     (case parseObjectId id' of
        None \<Rightarrow> (internalError, S)
      | Some i \<Rightarrow>
          (case find (\<lambda>p. p_id p = i \<and> visible userId p) (projects S) of
             None \<Rightarrow> (Response 404 (ErrorBody ''Project not found''), S)
           | Some project \<Rightarrow>
               (case saveExisting ((assign (hydrate project) updates)\<lparr>d_updatedAt := now\<rparr>) S of
                  None \<Rightarrow> (internalError, S)
                | Some (p, S') \<Rightarrow> (Response 200 (ProjectBody p), S'))))"

definition deleteProject :: "oid \<Rightarrow> string \<Rightarrow> store \<Rightarrow> response \<times> store" where
  "deleteProject userId id' S =
     (case parseObjectId id' of
        None \<Rightarrow> (internalError, S)
      | Some i \<Rightarrow>
          (case find (\<lambda>p. p_id p = i \<and> owner p = userId) (projects S) of
             None \<Rightarrow> (Response 404 (ErrorBody ''Project not found or insufficient permissions''), S)
           | Some project \<Rightarrow>
               (Response 200 (MessageBody ''Project deleted successfully''),
                S\<lparr>projects := removeById i (projects S)\<rparr>)))"

section \<open>Sequences of requests\<close>

datatype request =
    Register "string \<Rightarrow> string" oid nat string string string
  | Login "string \<Rightarrow> string \<Rightarrow> bool" nat string string
  | GetProjects oid
  | CreateProject oid nat oid body
  | UpdateProject nat oid string patch
  | DeleteProject oid string

fun handle :: "request \<Rightarrow> store \<Rightarrow> response \<times> store" where
  "handle (Register h i t n e pw) S = register h i t n e pw S"
| "handle (Login c t e pw) S = (login c t e pw S, S)"
| "handle (GetProjects u) S = (getProjects u S, S)"
| "handle (CreateProject i t u b) S = createProject i t u b S"
| "handle (UpdateProject t u i p) S = updateProject t u i p S"
| "handle (DeleteProject u i) S = deleteProject u i S"



section \<open>Realtime notifier\<close>

text \<open>
  The socket handlers of lines 337-352. \<open>rooms\<close> gives the sockets in each room,
  \<open>received\<close> the events sent to each socket so far. A socket is in the room named by
  its own id from its connection on. A handler that throws has no result: reading
  \<^verbatim>\<open>data.projectId\<close> throws when \<^verbatim>\<open>data\<close> is \<^verbatim>\<open>null\<close> or \<^verbatim>\<open>undefined\<close>, and the
  template literal of the room name throws when the project id has no rendering.
\<close>

record notifier =
  rooms :: "string \<Rightarrow> string set"
  received :: "string \<Rightarrow> (string \<times> json) list"

definition connection :: "string \<Rightarrow> notifier \<Rightarrow> notifier" where
  "connection sid N = N\<lparr>rooms := (rooms N)(sid := insert sid (rooms N sid))\<rparr>"

definition projectRoom :: "json option \<Rightarrow> string option" where
  \<comment> \<open>\<^verbatim>\<open>`project-${projectId}`\<close>\<close>
  "projectRoom projectId = map_option ((@) ''project-'') (template projectId)"

definition join_project :: "string \<Rightarrow> json option \<Rightarrow> notifier \<Rightarrow> notifier option" where
  "join_project sid projectId N =
     (case projectRoom projectId of
        None \<Rightarrow> None
      | Some room \<Rightarrow> Some (N\<lparr>rooms := (rooms N)(room := insert sid (rooms N room))\<rparr>))"

definition projectIdOf :: "json \<Rightarrow> json option option" where
  \<comment> \<open>\<^verbatim>\<open>data.projectId\<close>: \<open>None\<close> when the read throws\<close>
  "projectIdOf data =
     (case data of
        JNull \<Rightarrow> None
      | JObj kvs \<Rightarrow> Some (field ''projectId'' kvs)
      | _ \<Rightarrow> Some None)"

definition project_update :: "string \<Rightarrow> json option \<Rightarrow> notifier \<Rightarrow> notifier option" where
  "project_update sid data N =
     (case data of
        None \<Rightarrow> None
      | Some d \<Rightarrow>
          (case projectIdOf d of
             None \<Rightarrow> None
           | Some projectId \<Rightarrow>
               (case projectRoom projectId of
                  None \<Rightarrow> None
                | Some room \<Rightarrow>
                    Some (N\<lparr>received := (\<lambda>c.
                            if c \<in> rooms N room \<and> c \<noteq> sid
                            then received N c @ [(''project-updated'', d)]
                            else received N c)\<rparr>))))"

definition disconnect :: "string \<Rightarrow> notifier \<Rightarrow> notifier" where
  "disconnect sid N = N\<lparr>rooms := (\<lambda>r. rooms N r - {sid})\<rparr>"

section \<open>Sample states\<close>

definition alice :: oid where
  "alice = ObjectId 161"

definition bob :: oid where
  "bob = ObjectId 178"

definition carol :: oid where
  "carol = ObjectId 195"

definition aliceUser :: user where
  "aliceUser = \<lparr>u_id = alice, username = ''alice'', email = ''alice@x.com'',
                password = ''hash:pw'', role = ''user'', u_createdAt = 1\<rparr>"

definition demo :: project where
  "demo = \<lparr>p_id = ObjectId 1, name = ''Demo'', description = None, technology = ''React'',
           status = ''planning'', owner = alice, collaborators = [bob],
           createdAt = 5, updatedAt = 5\<rparr>"

definition solo :: project where
  "solo = \<lparr>p_id = ObjectId 2, name = ''Solo'', description = Some ''mine'', technology = ''Node'',
           status = ''testing'', owner = alice, collaborators = [],
           createdAt = 6, updatedAt = 7\<rparr>"

definition emptyStore :: store where
  "emptyStore = \<lparr>users = [], projects = []\<rparr>"

definition sampleStore :: store where
  "sampleStore = \<lparr>users = [aliceUser], projects = [demo]\<rparr>"


definition demoBody :: body where
  "demoBody = [''name'' \<mapsto> JStr ''Demo'', ''technology'' \<mapsto> JStr ''React'']"


definition sameHash :: "string \<Rightarrow> string \<Rightarrow> bool" where
  "sameHash pw h \<longleftrightarrow> h = ''hash:'' @ pw"

definition idle :: notifier where
  "idle = \<lparr>rooms = (\<lambda>r. {}), received = (\<lambda>c. [])\<rparr>"

section \<open>Facts about the store operations\<close>

lemma validate_SomeD:
  "validate d = Some p \<Longrightarrow>
     p_id p = d_id d \<and> d_name d = Val (name p) \<and> name p \<noteq> [] \<and>
     d_technology d = Val (technology p) \<and> technology p \<noteq> [] \<and>
     d_status d = Val (status p) \<and> status p \<in> set statusEnum \<and>
     d_owner d = Val (owner p) \<and> d_collaborators d = Val (collaborators p) \<and>
     createdAt p = d_createdAt d \<and> updatedAt p = d_updatedAt d \<and>
     d_description d \<noteq> CastError \<and>
     description p = (case d_description d of Val x \<Rightarrow> Some x | _ \<Rightarrow> None)"
  by (auto simp: validate_def split: cast.splits if_splits)

lemma validate_new_missing:
  "name' = None \<or> technology' = None \<Longrightarrow>
     validate (newProject newId now name' description' technology' userId) = None"
  by (auto simp: validate_def newProject_def castField_def split: cast.splits)

lemma find_SomeD: "find P xs = Some x \<Longrightarrow> x \<in> set xs \<and> P x"
  by (induction xs) (auto split: if_splits)

lemma set_replaceById: "q \<in> set (replaceById p qs) \<Longrightarrow> q = p \<or> q \<in> set qs"
  by (induction qs) (auto split: if_splits)

lemma ids_replaceById: "p_id p = i \<Longrightarrow> i \<in> p_id ` set qs \<Longrightarrow> map p_id (replaceById p qs) = map p_id qs"
  by (induction qs) auto

lemma set_removeById: "q \<in> set (removeById i qs) \<Longrightarrow> q \<in> set qs"
  by (induction qs) (auto split: if_splits)

lemma distinct_removeById:
  "distinct (map p_id qs) \<Longrightarrow> distinct (map p_id (removeById i qs))"
  by (induction qs) (auto dest: set_removeById)

lemma removed_removeById:
  "distinct (map p_id qs) \<Longrightarrow> i \<notin> p_id ` set (removeById i qs)"
  by (induction qs) (auto dest: set_removeById)





lemma register_projects: "projects (snd (register h i t n e pw S)) = projects S"
  by (simp add: register_def Let_def split: option.splits)

lemma createProject_cases:
  "createProject i t u b S = (internalError, S) \<or>
   (\<exists>p. validate (newProject i t (b ''name'') (b ''description'') (b ''technology'') u) = Some p \<and>
        p_id p \<notin> p_id ` set (projects S) \<and>
        createProject i t u b S = (Response 201 (ProjectBody p), S\<lparr>projects := projects S @ [p]\<rparr>))"
  by (simp add: createProject_def saveNew_def split: option.splits)

lemma updateProject_cases:
  "snd (updateProject t u i' up S) = S \<or>
   (\<exists>q p. q \<in> set (projects S) \<and> visible u q \<and> parseObjectId i' = Some (p_id q) \<and>
        validate ((assign (hydrate q) up)\<lparr>d_updatedAt := t\<rparr>) = Some p \<and>
        updateProject t u i' up S =
          (Response 200 (ProjectBody p), S\<lparr>projects := replaceById p (projects S)\<rparr>))"
  by (auto simp: updateProject_def saveExisting_def split: option.splits dest: find_SomeD)

lemma deleteProject_subset:
  "p' \<in> set (projects (snd (deleteProject u i' S))) \<Longrightarrow> p' \<in> set (projects S)"
  by (auto simp: deleteProject_def split: option.splits dest: set_removeById)

text \<open>
  Identifiers stay unique: every handler takes a store whose projects have pairwise
  different identifiers to such a store again.
\<close>

lemma handle_distinct:
  assumes "distinct (map p_id (projects S))"
  shows "distinct (map p_id (projects (snd (handle r S))))"
proof (cases r)
  case (Register h i t n e pw)
  with assms show ?thesis by (simp add: register_projects)
next
  case (Login c t e pw)
  with assms show ?thesis by simp
next
  case (GetProjects u)
  with assms show ?thesis by simp
next
  case (CreateProject i t u b)
  from createProject_cases[of i t u b S] assms CreateProject show ?thesis by auto
next
  case (UpdateProject t u i' up)
  from updateProject_cases[of t u i' up S] show ?thesis
  proof
    assume "snd (updateProject t u i' up S) = S"
    with assms UpdateProject show ?thesis by simp
  next
    assume "\<exists>q p. q \<in> set (projects S) \<and> visible u q \<and> parseObjectId i' = Some (p_id q) \<and>
        validate ((assign (hydrate q) up)\<lparr>d_updatedAt := t\<rparr>) = Some p \<and>
        updateProject t u i' up S =
          (Response 200 (ProjectBody p), S\<lparr>projects := replaceById p (projects S)\<rparr>)"
    then obtain q p where q: "q \<in> set (projects S)"
      and v: "validate ((assign (hydrate q) up)\<lparr>d_updatedAt := t\<rparr>) = Some p"
      and c: "updateProject t u i' up S =
          (Response 200 (ProjectBody p), S\<lparr>projects := replaceById p (projects S)\<rparr>)"
      by blast
    from validate_SomeD[OF v] have "p_id p = p_id q" by (simp add: assign_def hydrate_def)
    with q have "map p_id (replaceById p (projects S)) = map p_id (projects S)"
      by (intro ids_replaceById) auto
    with assms UpdateProject c show ?thesis by simp
  qed
next
  case (DeleteProject u i')
  with assms show ?thesis
    by (auto simp: deleteProject_def distinct_removeById split: option.splits)
qed


text \<open>An update that is not answered with 200 writes nothing.\<close>

lemma update_refused_unchanged:
  "code (fst (updateProject t u i' up S)) \<noteq> 200 \<Longrightarrow> snd (updateProject t u i' up S) = S"
  using updateProject_cases[of t u i' up S] by auto

text \<open>
  Stored projects meet the schema: every handler keeps \<open>wellFormed\<close> for all projects
  of the store, and a well-formed project passes \<open>validate\<close> unchanged.
\<close>

lemma validate_wellFormed: "validate d = Some p \<Longrightarrow> wellFormed p"
  by (auto simp: wellFormed_def dest: validate_SomeD)

lemma validate_hydrate:
  "wellFormed p \<Longrightarrow> validate ((hydrate p)\<lparr>d_updatedAt := t\<rparr>) = Some (p\<lparr>updatedAt := t\<rparr>)"
  by (cases "description p") (auto simp: wellFormed_def validate_def hydrate_def)

lemma handle_wellFormed:
  assumes "\<forall>p \<in> set (projects S). wellFormed p" and "p' \<in> set (projects (snd (handle r S)))"
  shows "wellFormed p'"
proof (cases r)
  case (Register h i t n e pw)
  with assms show ?thesis by (simp add: register_projects)
next
  case (Login c t e pw)
  with assms show ?thesis by simp
next
  case (GetProjects u)
  with assms show ?thesis by simp
next
  case (CreateProject i t u b)
  from createProject_cases[of i t u b S] assms CreateProject show ?thesis
    by (auto dest: validate_wellFormed)
next
  case (UpdateProject t u i' up)
  from updateProject_cases[of t u i' up S] show ?thesis
  proof
    assume "snd (updateProject t u i' up S) = S"
    with assms UpdateProject show ?thesis by simp
  next
    assume "\<exists>q p. q \<in> set (projects S) \<and> visible u q \<and> parseObjectId i' = Some (p_id q) \<and>
        validate ((assign (hydrate q) up)\<lparr>d_updatedAt := t\<rparr>) = Some p \<and>
        updateProject t u i' up S =
          (Response 200 (ProjectBody p), S\<lparr>projects := replaceById p (projects S)\<rparr>)"
    then obtain q p
      where v: "validate ((assign (hydrate q) up)\<lparr>d_updatedAt := t\<rparr>) = Some p"
        and c: "updateProject t u i' up S =
          (Response 200 (ProjectBody p), S\<lparr>projects := replaceById p (projects S)\<rparr>)"
      by blast
    from assms(2) UpdateProject c have "p' \<in> set (replaceById p (projects S))" by simp
    then have "p' = p \<or> p' \<in> set (projects S)" by (rule set_replaceById)
    with validate_wellFormed[OF v] assms(1) show ?thesis by auto
  qed
next
  case (DeleteProject u i')
  with assms show ?thesis by (auto dest: deleteProject_subset)
qed

text \<open>A create with non-empty string fields and a fresh identifier succeeds.\<close>

lemma createProject_succeeds:
  assumes "b ''name'' = Some (JStr n)" and "n \<noteq> []"
    and "b ''technology'' = Some (JStr t)" and "t \<noteq> []"
    and "b ''description'' = map_option JStr d"
    and "newId \<notin> p_id ` set (projects S)"
  shows "createProject newId now userId b S =
     (Response 201 (ProjectBody \<lparr>p_id = newId, name = n, description = d, technology = t,
        status = ''planning'', owner = userId, collaborators = [], createdAt = now, updatedAt = now\<rparr>),
      S\<lparr>projects := projects S @ [\<lparr>p_id = newId, name = n, description = d, technology = t,
        status = ''planning'', owner = userId, collaborators = [], createdAt = now, updatedAt = now\<rparr>]\<rparr>)"
  using assms
  by (cases d) (auto simp: createProject_def newProject_def saveNew_def validate_def castField_def
      castString_def statusEnum_def)

text \<open>Evaluation of the identifier cast on the strings used in the examples below.\<close>

lemma parse_examples:
  "parseObjectId ''000000000000000000000001'' = Some (ObjectId 1)"
  "parseObjectId ''000000000000000000000002'' = Some (ObjectId 2)"
  "parseObjectId ''0000000000000000000000b2'' = Some bob"
  "parseObjectId ''0000000000000000000000c3'' = Some carol"
  "parseObjectId ''abc'' = None"
  "parseObjectId ''not-an-identifier'' = None"
  by (simp_all add: parseObjectId_def hexDigit_def bob_def carol_def)

section \<open>Claims\<close>

subsection \<open>C1: the owner of a project\<close>




subsection \<open>C2: create without a required field\<close>

text \<open>
  C2 says that a create request without \<^verbatim>\<open>name\<close> or without \<^verbatim>\<open>technology\<close> fails with
  InvalidInput (400) and persists nothing. As amended: such a request fails with the
  generic Internal error (500, \<^verbatim>\<open>Internal server error\<close>) and the store is unchanged.
\<close>

theorem create_missing_field_internal:
  "b ''name'' = None \<or> b ''technology'' = None \<Longrightarrow>
     createProject newId now userId b S = (Response 500 (ErrorBody ''Internal server error''), S)"
  by (simp add: createProject_def saveNew_def validate_new_missing internalError_def)

theorem create_missing_field_internal_witness:
  "([''name'' \<mapsto> JStr ''Demo''] ''name'' = None \<or> [''name'' \<mapsto> JStr ''Demo''] ''technology'' = None)
   \<and> createProject (ObjectId 3) 8 bob [''name'' \<mapsto> JStr ''Demo''] sampleStore
       = (Response 500 (ErrorBody ''Internal server error''), sampleStore)"
proof -
  have h: "[''name'' \<mapsto> JStr ''Demo''] ''name'' = None \<or> [''name'' \<mapsto> JStr ''Demo''] ''technology'' = None"
    by simp
  from create_missing_field_internal[OF h] h show ?thesis by blast
qed

text \<open>C2 as stated fails: a body without \<^verbatim>\<open>name\<close> is answered with 500, not 400.\<close>

theorem create_missing_field_counterexample:
  "fst (createProject (ObjectId 1) 5 alice [''technology'' \<mapsto> JStr ''React''] emptyStore)
     = Response 500 (ErrorBody ''Internal server error'')
   \<and> code (fst (createProject (ObjectId 1) 5 alice [''technology'' \<mapsto> JStr ''React''] emptyStore)) \<noteq> 400"
  by (simp add: createProject_def newProject_def saveNew_def validate_def castField_def
      internalError_def)

subsection \<open>C3: update answers NotFound uniformly\<close>

text \<open>
  C3 says that for every caller and every project id, update fails with NotFound (404)
  when no project has that id or when the caller is neither owner nor collaborator,
  with the same response in both cases. As amended: this holds for every project id
  that is a well-formed store identifier. For such an id, a store \<open>S1\<close> without the
  project and a store \<open>S2\<close> holding it out of the caller's reach give the same response
  \<^verbatim>\<open>404 Project not found\<close>, whatever the bodies, and both stores stay as they are.
\<close>

theorem update_not_found_uniform:
  assumes "parseObjectId id' = Some i"
    and "\<forall>p \<in> set (projects S1). p_id p \<noteq> i"
    and "\<exists>p \<in> set (projects S2). p_id p = i"
    and "\<forall>p \<in> set (projects S2). p_id p = i \<longrightarrow> owner p \<noteq> userId \<and> userId \<notin> set (collaborators p)"
  shows "updateProject now1 userId id' updates1 S1 = (Response 404 (ErrorBody ''Project not found''), S1)
       \<and> updateProject now2 userId id' updates2 S2 = (Response 404 (ErrorBody ''Project not found''), S2)
       \<and> fst (updateProject now1 userId id' updates1 S1) = fst (updateProject now2 userId id' updates2 S2)"
proof -
  have "find (\<lambda>p. p_id p = i \<and> visible userId p) (projects S1) = None"
    using assms(2) by (auto simp: find_None_iff)
  moreover have "find (\<lambda>p. p_id p = i \<and> visible userId p) (projects S2) = None"
    using assms(4) by (auto simp: find_None_iff visible_def)
  ultimately show ?thesis
    using assms(1) by (simp add: updateProject_def)
qed

theorem update_not_found_uniform_witness:
  "parseObjectId ''000000000000000000000001'' = Some (ObjectId 1)
   \<and> projects emptyStore = []
   \<and> projects sampleStore = [demo] \<and> p_id demo = ObjectId 1
   \<and> owner demo \<noteq> carol \<and> carol \<notin> set (collaborators demo)
   \<and> updateProject 9 carol ''000000000000000000000001'' [Name \<mapsto> JStr ''x''] emptyStore
       = (Response 404 (ErrorBody ''Project not found''), emptyStore)
   \<and> updateProject 10 carol ''000000000000000000000001'' [Status \<mapsto> JStr ''deployed''] sampleStore
       = (Response 404 (ErrorBody ''Project not found''), sampleStore)"
proof -
  have h1: "parseObjectId ''000000000000000000000001'' = Some (ObjectId 1)"
    by (rule parse_examples)
  have e: "projects emptyStore = []" by (simp add: emptyStore_def)
  have s: "projects sampleStore = [demo]" "p_id demo = ObjectId 1"
    "owner demo \<noteq> carol" "carol \<notin> set (collaborators demo)"
    by (simp_all add: sampleStore_def demo_def alice_def bob_def carol_def)
  have h2: "\<forall>p \<in> set (projects emptyStore). p_id p \<noteq> ObjectId 1"
    using e by simp
  have h3: "\<exists>p \<in> set (projects sampleStore). p_id p = ObjectId 1"
    using s by simp
  have h4: "\<forall>p \<in> set (projects sampleStore). p_id p = ObjectId 1 \<longrightarrow>
         owner p \<noteq> carol \<and> carol \<notin> set (collaborators p)"
    using s by simp
  from update_not_found_uniform[OF h1 h2 h3 h4] h1 e s show ?thesis by blast
qed

text \<open>
  C3 as stated fails on an id that is not a store identifier: no project has the id
  \<^verbatim>\<open>abc\<close>, and the update is answered with 500, not 404.
\<close>

theorem update_malformed_id_counterexample:
  "parseObjectId ''abc'' = None
   \<and> fst (updateProject 9 alice ''abc'' [Name \<mapsto> JStr ''x''] sampleStore)
       = Response 500 (ErrorBody ''Internal server error'')
   \<and> code (fst (updateProject 9 alice ''abc'' [Name \<mapsto> JStr ''x''] sampleStore)) \<noteq> 404"
  by (simp add: updateProject_def parse_examples internalError_def)

subsection \<open>C4: a collaborator may update but not delete\<close>



subsection \<open>C5: login failures look the same\<close>

text \<open>
  C5: a login with an email that matches no user and a login with an existing email
  and a password whose hash comparison fails get the same response, status 401 with
  the message \<^verbatim>\<open>Invalid credentials\<close>.
\<close>

theorem login_failures_identical:
  assumes "find (\<lambda>u. email u = unknownEmail) (users S) = None"
    and "find (\<lambda>u. email u = knownEmail) (users S) = Some u"
    and "\<not> compare wrongPassword (password u)"
  shows "login compare now unknownEmail anyPassword S = Response 401 (ErrorBody ''Invalid credentials'')
       \<and> login compare now' knownEmail wrongPassword S = Response 401 (ErrorBody ''Invalid credentials'')
       \<and> login compare now unknownEmail anyPassword S = login compare now' knownEmail wrongPassword S"
  using assms by (simp add: login_def)

theorem login_failures_identical_witness:
  "find (\<lambda>u. email u = ''nobody@x.com'') (users sampleStore) = None
   \<and> find (\<lambda>u. email u = ''alice@x.com'') (users sampleStore) = Some aliceUser
   \<and> \<not> sameHash ''wrong'' (password aliceUser)
   \<and> login sameHash 3 ''nobody@x.com'' ''pw'' sampleStore
       = Response 401 (ErrorBody ''Invalid credentials'')
   \<and> login sameHash 4 ''alice@x.com'' ''wrong'' sampleStore
       = Response 401 (ErrorBody ''Invalid credentials'')
   \<and> code (login sameHash 4 ''alice@x.com'' ''pw'' sampleStore) = 200"
proof -
  have h1: "find (\<lambda>u. email u = ''nobody@x.com'') (users sampleStore) = None"
    by (simp add: sampleStore_def aliceUser_def)
  have h2: "find (\<lambda>u. email u = ''alice@x.com'') (users sampleStore) = Some aliceUser"
    by (simp add: sampleStore_def aliceUser_def)
  have h3: "\<not> sameHash ''wrong'' (password aliceUser)"
    by (simp add: sameHash_def aliceUser_def)
  have ok: "code (login sameHash 4 ''alice@x.com'' ''pw'' sampleStore) = 200"
    by (simp add: login_def sampleStore_def aliceUser_def sameHash_def)
  from login_failures_identical[where compare = sameHash and now = 3 and now' = 4
      and anyPassword = "''pw''", OF h1 h2 h3] h1 h2 h3 ok
  show ?thesis by blast
qed

subsection \<open>C6: the projects a user sees\<close>

text \<open>
  C6: listing answers 200 with exactly the stored projects of which the caller is the
  owner or a collaborator. A project owned by \<open>A\<close> without collaborators is in the
  list of \<open>A\<close> and in the list of no other user \<open>B\<close>.
\<close>

theorem getProjects_visible_exact:
  "\<exists>psA psB.
     getProjects A S = Response 200 (ProjectsBody psA) \<and>
     getProjects B S = Response 200 (ProjectsBody psB) \<and>
     set psA = {p \<in> set (projects S). owner p = A \<or> A \<in> set (collaborators p)} \<and>
     set psB = {p \<in> set (projects S). owner p = B \<or> B \<in> set (collaborators p)} \<and>
     (\<forall>p \<in> set (projects S). owner p = A \<and> collaborators p = [] \<and> B \<noteq> A \<longrightarrow>
         p \<in> set psA \<and> p \<notin> set psB)"
  by (auto simp: getProjects_def visible_def)

theorem getProjects_visible_exact_witness:
  "solo \<in> set (projects \<lparr>users = [], projects = [demo, solo]\<rparr>)
   \<and> owner solo = alice \<and> collaborators solo = [] \<and> bob \<noteq> alice
   \<and> getProjects alice \<lparr>users = [], projects = [demo, solo]\<rparr> = Response 200 (ProjectsBody [demo, solo])
   \<and> getProjects bob \<lparr>users = [], projects = [demo, solo]\<rparr> = Response 200 (ProjectsBody [demo])
   \<and> solo \<notin> set [demo]"
proof -
  let ?S = "\<lparr>users = [], projects = [demo, solo]\<rparr>"
  have h: "solo \<in> set (projects ?S)" "owner solo = alice" "collaborators solo = []" "bob \<noteq> alice"
    by (simp_all add: solo_def alice_def bob_def)
  have a: "getProjects alice ?S = Response 200 (ProjectsBody [demo, solo])"
    by (simp add: getProjects_def visible_def demo_def solo_def)
  have b: "getProjects bob ?S = Response 200 (ProjectsBody [demo])"
    by (simp add: getProjects_def visible_def demo_def solo_def alice_def bob_def)
  from getProjects_visible_exact[of alice ?S bob] a b h
  have "solo \<in> set [demo, solo] \<and> solo \<notin> set [demo]" by auto
  with h a b show ?thesis by blast
qed

subsection \<open>C7: create, then list\<close>

text \<open>
  C7: when a create with a name, an optional description and a technology succeeds
  (201), the list of the same user in the resulting store holds a project with that
  name, description and technology and with status \<^verbatim>\<open>planning\<close>.
\<close>

theorem create_then_list_roundtrip:
  assumes "b ''name'' = Some (JStr n)" and "b ''technology'' = Some (JStr t)"
    and "b ''description'' = map_option JStr d"
    and "createProject newId now userId b S = (Response 201 r, S')"
  shows "\<exists>ps p. getProjects userId S' = Response 200 (ProjectsBody ps) \<and> p \<in> set ps \<and>
           name p = n \<and> description p = d \<and> technology p = t \<and> status p = ''planning''"
proof -
  let ?doc = "newProject newId now (b ''name'') (b ''description'') (b ''technology'') userId"
  from assms(4) obtain p where v: "validate ?doc = Some p"
    and S': "S' = S\<lparr>projects := projects S @ [p]\<rparr>"
    by (auto simp: createProject_def saveNew_def internalError_def Let_def
        split: option.splits if_splits)
  from validate_SomeD[OF v] assms(1-3)
  have "name p = n" "technology p = t" "status p = ''planning''" "owner p = userId"
    "description p = d"
    by (auto simp: newProject_def castField_def castString_def split: option.splits)
  then show ?thesis
    using S' by (auto simp: getProjects_def visible_def)
qed

theorem create_then_list_roundtrip_witness:
  "(demoBody(''description'' \<mapsto> JStr ''a demo'')) ''name'' = Some (JStr ''Demo'')
   \<and> (demoBody(''description'' \<mapsto> JStr ''a demo'')) ''technology'' = Some (JStr ''React'')
   \<and> (demoBody(''description'' \<mapsto> JStr ''a demo'')) ''description'' = map_option JStr (Some ''a demo'')
   \<and> code (fst (createProject (ObjectId 3) 8 carol (demoBody(''description'' \<mapsto> JStr ''a demo'')) sampleStore)) = 201
   \<and> (\<exists>ps p. getProjects carol
          (snd (createProject (ObjectId 3) 8 carol (demoBody(''description'' \<mapsto> JStr ''a demo'')) sampleStore))
            = Response 200 (ProjectsBody ps) \<and> p \<in> set ps \<and>
          name p = ''Demo'' \<and> description p = Some ''a demo'' \<and> technology p = ''React'' \<and>
          status p = ''planning'')"
proof -
  let ?b = "demoBody(''description'' \<mapsto> JStr ''a demo'')"
  let ?p = "\<lparr>p_id = ObjectId 3, name = ''Demo'', description = Some ''a demo'',
            technology = ''React'', status = ''planning'', owner = carol, collaborators = [],
            createdAt = 8, updatedAt = 8\<rparr>"
  have h1: "?b ''name'' = Some (JStr ''Demo'')" by (simp add: demoBody_def)
  have h2: "?b ''technology'' = Some (JStr ''React'')" by (simp add: demoBody_def)
  have h3: "?b ''description'' = map_option JStr (Some ''a demo'')" by simp
  have h4: "createProject (ObjectId 3) 8 carol ?b sampleStore
              = (Response 201 (ProjectBody ?p), sampleStore\<lparr>projects := [demo, ?p]\<rparr>)"
    by (simp add: createProject_def newProject_def saveNew_def validate_def castField_def
        castString_def statusEnum_def demoBody_def sampleStore_def demo_def)
  from create_then_list_roundtrip[OF h1 h2 h3 h4] h1 h2 h3 h4 show ?thesis by simp
qed

subsection \<open>C8: delivery of project updates\<close>

text \<open>
  C8: a \<^verbatim>\<open>project-update\<close> event for project \<open>p1\<close> is delivered, as
  \<^verbatim>\<open>project-updated\<close>, to exactly the sockets that are in the room of \<open>p1\<close> and are not
  the sender. A socket \<open>c\<close> that has joined \<open>p1\<close> receives the event of another socket
  \<open>s\<close> for \<open>p1\<close>, receives nothing from an event for another project \<open>p2\<close> that it has
  not joined, does not receive its own event, and receives nothing once it has
  disconnected. Project ids are strings here; the room of \<open>p\<close> is \<^verbatim>\<open>project-\<close>\<open>p\<close>.
\<close>

theorem project_update_delivery:
  assumes "field ''projectId'' kvs = Some (JStr p1)" and "field ''projectId'' kvs' = Some (JStr p2)"
    and "p1 \<noteq> p2" and "c \<noteq> s" and "c \<notin> rooms N (''project-'' @ p2)"
  shows "(\<exists>N'. project_update sender (Some (JObj kvs)) N = Some N' \<and> rooms N' = rooms N \<and>
           (\<forall>x. received N' x =
              (if x \<in> rooms N (''project-'' @ p1) \<and> x \<noteq> sender
               then received N x @ [(''project-updated'', JObj kvs)] else received N x)))
       \<and> (\<exists>J. join_project c (Some (JStr p1)) N = Some J \<and> received J = received N \<and>
           (\<forall>r. rooms J r = (if r = ''project-'' @ p1 then insert c (rooms N r) else rooms N r)) \<and>
           (\<exists>N'. project_update s (Some (JObj kvs)) J = Some N' \<and>
              received N' c = received N c @ [(''project-updated'', JObj kvs)]) \<and>
           (\<exists>N'. project_update s (Some (JObj kvs')) J = Some N' \<and>
              received N' c = received N c) \<and>
           (\<exists>N'. project_update c (Some (JObj kvs)) J = Some N' \<and>
              received N' c = received N c) \<and>
           (\<exists>N'. project_update s (Some (JObj kvs)) (disconnect c J) = Some N' \<and>
              received N' c = received N c))"
  using assms
  by (auto simp: project_update_def projectIdOf_def join_project_def disconnect_def
      projectRoom_def template_def)

theorem project_update_delivery_witness:
  "field ''projectId'' [(''projectId'', JStr ''p1''), (''name'', JStr ''Demo'')] = Some (JStr ''p1'')
   \<and> field ''projectId'' [(''projectId'', JStr ''p2'')] = Some (JStr ''p2'')
   \<and> ''p1'' \<noteq> ''p2'' \<and> ''c1'' \<noteq> ''s1'' \<and> ''c1'' \<notin> rooms idle (''project-'' @ ''p2'')
   \<and> (\<exists>J. join_project ''c1'' (Some (JStr ''p1'')) idle = Some J \<and>
        (\<exists>N'. project_update ''s1''
                 (Some (JObj [(''projectId'', JStr ''p1''), (''name'', JStr ''Demo'')])) J = Some N' \<and>
           received N' ''c1''
             = [(''project-updated'', JObj [(''projectId'', JStr ''p1''), (''name'', JStr ''Demo'')])]) \<and>
        (\<exists>N'. project_update ''s1'' (Some (JObj [(''projectId'', JStr ''p2'')])) J = Some N' \<and>
           received N' ''c1'' = []) \<and>
        (\<exists>N'. project_update ''c1''
                 (Some (JObj [(''projectId'', JStr ''p1''), (''name'', JStr ''Demo'')])) J = Some N' \<and>
           received N' ''c1'' = []))"
proof -
  have h1: "field ''projectId'' [(''projectId'', JStr ''p1''), (''name'', JStr ''Demo'')] = Some (JStr ''p1'')"
    by (simp add: field_def)
  have h2: "field ''projectId'' [(''projectId'', JStr ''p2'')] = Some (JStr ''p2'')"
    by (simp add: field_def)
  have h3: "''p1'' \<noteq> ''p2''" by simp
  have h4: "''c1'' \<noteq> ''s1''" by simp
  have h5: "''c1'' \<notin> rooms idle (''project-'' @ ''p2'')" by (simp add: idle_def)
  have e: "received idle ''c1'' = []" by (simp add: idle_def)
  from project_update_delivery[OF h1 h2 h3 h4 h5, THEN conjunct2] e
  have "\<exists>J. join_project ''c1'' (Some (JStr ''p1'')) idle = Some J \<and>
        (\<exists>N'. project_update ''s1''
                 (Some (JObj [(''projectId'', JStr ''p1''), (''name'', JStr ''Demo'')])) J = Some N' \<and>
           received N' ''c1''
             = [(''project-updated'', JObj [(''projectId'', JStr ''p1''), (''name'', JStr ''Demo'')])]) \<and>
        (\<exists>N'. project_update ''s1'' (Some (JObj [(''projectId'', JStr ''p2'')])) J = Some N' \<and>
           received N' ''c1'' = []) \<and>
        (\<exists>N'. project_update ''c1''
                 (Some (JObj [(''projectId'', JStr ''p1''), (''name'', JStr ''Demo'')])) J = Some N' \<and>
           received N' ''c1'' = [])"
    by (elim exE conjE) (simp only: append_Nil, blast)
  with h1 h2 h3 h4 h5 show ?thesis by blast
qed

subsection \<open>C9: an id that is not a store identifier\<close>

text \<open>
  C9: when the id in the path of an update or a delete is not a well-formed store
  identifier, the answer is the generic 500 of the catch block, not the 404 of the
  handler, and the store is unchanged.
\<close>

theorem malformed_id_internal_error:
  "parseObjectId id' = None \<Longrightarrow>
     updateProject now userId id' updates S = (Response 500 (ErrorBody ''Internal server error''), S) \<and>
     deleteProject userId id' S = (Response 500 (ErrorBody ''Internal server error''), S)"
  by (simp add: updateProject_def deleteProject_def internalError_def)

theorem malformed_id_internal_error_witness:
  "parseObjectId ''not-an-identifier'' = None
   \<and> updateProject 9 alice ''not-an-identifier'' [Name \<mapsto> JStr ''x''] sampleStore
       = (Response 500 (ErrorBody ''Internal server error''), sampleStore)
   \<and> deleteProject alice ''not-an-identifier'' sampleStore
       = (Response 500 (ErrorBody ''Internal server error''), sampleStore)"
proof -
  have h: "parseObjectId ''not-an-identifier'' = None" by (rule parse_examples)
  from malformed_id_internal_error[OF h] h show ?thesis by blast
qed

subsection \<open>C10: create reads three fields\<close>

text \<open>
  C10: create reads \<^verbatim>\<open>name\<close>, \<^verbatim>\<open>description\<close> and \<^verbatim>\<open>technology\<close> from the body and
  nothing else: two bodies that agree on these three fields give the same result.
  Whatever else the body carries, a created project has status \<^verbatim>\<open>planning\<close>, the
  caller as owner, no collaborators and both timestamps at the time of the request,
  and it is appended to the store.
\<close>

theorem create_reads_three_fields:
  assumes "b ''name'' = b' ''name''" and "b ''description'' = b' ''description''"
    and "b ''technology'' = b' ''technology''"
  shows "createProject newId now userId b S = createProject newId now userId b' S
       \<and> (\<forall>p S'. createProject newId now userId b S = (Response 201 (ProjectBody p), S') \<longrightarrow>
            status p = ''planning'' \<and> owner p = userId \<and> collaborators p = [] \<and>
            createdAt p = now \<and> updatedAt p = now \<and> projects S' = projects S @ [p])"
proof -
  have "createProject newId now userId b S = createProject newId now userId b' S"
    using assms by (simp add: createProject_def)
  moreover have "status p = ''planning'' \<and> owner p = userId \<and> collaborators p = [] \<and>
            createdAt p = now \<and> updatedAt p = now \<and> projects S' = projects S @ [p]"
    if "createProject newId now userId b S = (Response 201 (ProjectBody p), S')" for p S'
  proof -
    let ?doc = "newProject newId now (b ''name'') (b ''description'') (b ''technology'') userId"
    from that have v: "validate ?doc = Some p" and S': "S' = S\<lparr>projects := projects S @ [p]\<rparr>"
      by (auto simp: createProject_def saveNew_def internalError_def Let_def
          split: option.splits if_splits)
    from validate_SomeD[OF v] S' show ?thesis
      by (auto simp: newProject_def)
  qed
  ultimately show ?thesis by blast
qed

text \<open>
  A body that also carries \<^verbatim>\<open>status\<close>, \<^verbatim>\<open>owner\<close>, \<^verbatim>\<open>collaborators\<close> and
  \<^verbatim>\<open>createdAt\<close> creates the same project as the body without them.
\<close>

theorem create_reads_three_fields_witness:
  "(demoBody(''status'' \<mapsto> JStr ''deployed'', ''owner'' \<mapsto> JStr ''0000000000000000000000b2'',
             ''collaborators'' \<mapsto> JArr [JStr ''0000000000000000000000b2''],
             ''createdAt'' \<mapsto> JStr ''2020-01-01'')) ''name'' = demoBody ''name''
   \<and> (demoBody(''status'' \<mapsto> JStr ''deployed'', ''owner'' \<mapsto> JStr ''0000000000000000000000b2'',
             ''collaborators'' \<mapsto> JArr [JStr ''0000000000000000000000b2''],
             ''createdAt'' \<mapsto> JStr ''2020-01-01'')) ''description'' = demoBody ''description''
   \<and> (demoBody(''status'' \<mapsto> JStr ''deployed'', ''owner'' \<mapsto> JStr ''0000000000000000000000b2'',
             ''collaborators'' \<mapsto> JArr [JStr ''0000000000000000000000b2''],
             ''createdAt'' \<mapsto> JStr ''2020-01-01'')) ''technology'' = demoBody ''technology''
   \<and> createProject (ObjectId 1) 5 alice
        (demoBody(''status'' \<mapsto> JStr ''deployed'', ''owner'' \<mapsto> JStr ''0000000000000000000000b2'',
             ''collaborators'' \<mapsto> JArr [JStr ''0000000000000000000000b2''],
             ''createdAt'' \<mapsto> JStr ''2020-01-01'')) emptyStore
      = (Response 201 (ProjectBody (demo\<lparr>collaborators := []\<rparr>)),
         emptyStore\<lparr>projects := [demo\<lparr>collaborators := []\<rparr>]\<rparr>)
   \<and> status (demo\<lparr>collaborators := []\<rparr>) = ''planning''
   \<and> owner (demo\<lparr>collaborators := []\<rparr>) = alice
   \<and> collaborators (demo\<lparr>collaborators := []\<rparr>) = []"
proof -
  let ?b = "demoBody(''status'' \<mapsto> JStr ''deployed'', ''owner'' \<mapsto> JStr ''0000000000000000000000b2'',
             ''collaborators'' \<mapsto> JArr [JStr ''0000000000000000000000b2''],
             ''createdAt'' \<mapsto> JStr ''2020-01-01'')"
  let ?p = "demo\<lparr>collaborators := []\<rparr>"
  have h1: "?b ''name'' = demoBody ''name''" by simp
  have h2: "?b ''description'' = demoBody ''description''" by simp
  have h3: "?b ''technology'' = demoBody ''technology''" by simp
  have plain: "createProject (ObjectId 1) 5 alice demoBody emptyStore
      = (Response 201 (ProjectBody ?p), emptyStore\<lparr>projects := [?p]\<rparr>)"
    by (simp add: createProject_def newProject_def saveNew_def validate_def castField_def
        castString_def statusEnum_def demoBody_def emptyStore_def demo_def)
  have same: "createProject (ObjectId 1) 5 alice ?b emptyStore
      = createProject (ObjectId 1) 5 alice demoBody emptyStore"
    by (rule create_reads_three_fields[OF h1 h2 h3, THEN conjunct1])
  have full: "createProject (ObjectId 1) 5 alice ?b emptyStore
      = (Response 201 (ProjectBody ?p), emptyStore\<lparr>projects := [?p]\<rparr>)"
    by (simp only: same plain)
  have props: "status ?p = ''planning'' \<and> owner ?p = alice \<and> collaborators ?p = []"
    using create_reads_three_fields[OF h1 h2 h3, THEN conjunct2, rule_format, OF full] by simp
  from h1 h2 h3 full props show ?thesis by blast
qed


end
